theory Spec2Isabelle
  imports Main "HOL-Library.Sublist"
begin

text \<open>
  jwt-flex: extraction of a bearer token from a request, its verification through the
  \<^verbatim>\<open>jsonwebtoken\<close> package, and four adapters (Express, Fastify, NestJS, raw Node) over
  the two. The functions of \<^verbatim>\<open>src/core\<close> and \<^verbatim>\<open>src/middleware\<close> are given as HOL
  functions under their own names; what they take from outside (the URL constructor of
  the platform, \<^verbatim>\<open>jwt.verify\<close>) is a parameter; a thrown value is the left summand of
  the result, a rejected promise likewise.
\<close>

section \<open>JavaScript strings\<close>

text \<open>
  A JavaScript string is modelled as a \<^typ>\<open>string\<close>: a list of code units, here the
  code units below 256. The string methods the library calls are written out on lists.
\<close>

text \<open>\<^verbatim>\<open>String.prototype.toLowerCase\<close>: on the code units below 256 it moves the ASCII
  capitals and the Latin-1 capitals (all of 192..222 but the multiplication sign 215)
  up by 32 and leaves everything else alone.\<close>

definition toLowerCase_char :: "char \<Rightarrow> char" where
  "toLowerCase_char c =
     (let n = (of_char c :: nat)
      in if (65 \<le> n \<and> n \<le> 90) \<or> (192 \<le> n \<and> n \<le> 222 \<and> n \<noteq> 215)
         then char_of (n + 32) else c)"

definition toLowerCase :: "string \<Rightarrow> string" where
  "toLowerCase s = map toLowerCase_char s"

text \<open>\<^verbatim>\<open>String.prototype.includes\<close>: the argument occurs as a contiguous run.\<close>

fun includes_str :: "string \<Rightarrow> string \<Rightarrow> bool" where
  "includes_str [] sub = (sub = [])"
| "includes_str (c # cs) sub = (prefix sub (c # cs) \<or> includes_str cs sub)"

text \<open>\<^verbatim>\<open>String.prototype.split\<close> with a separator of one code unit: every occurrence
  of the separator ends a piece, so the result is never empty and \<^verbatim>\<open>''.split(';')\<close> is
  \<^verbatim>\<open>['']\<close>.\<close>

fun split :: "char \<Rightarrow> string \<Rightarrow> string list" where
  "split sep [] = [[]]"
| "split sep (c # cs) =
     (if c = sep then [] # split sep cs
      else (case split sep cs of
              [] \<Rightarrow> [[c]]
            | p # ps \<Rightarrow> (c # p) # ps))"

text \<open>\<^verbatim>\<open>String.prototype.trim\<close>: strips white space and line terminators from both
  ends; below 256 these are the code units 9 to 13, 32 and 160.\<close>

definition isWhiteSpace :: "char \<Rightarrow> bool" where
  "isWhiteSpace c =
     (let n = (of_char c :: nat) in (9 \<le> n \<and> n \<le> 13) \<or> n = 32 \<or> n = 160)"

definition trim :: "string \<Rightarrow> string" where
  "trim s = rev (dropWhile isWhiteSpace (rev (dropWhile isWhiteSpace s)))"

section \<open>Request-like objects\<close>

text \<open>
  An extractor receives either a Node \<^verbatim>\<open>IncomingMessage\<close> or a plain object with
  optional \<^verbatim>\<open>headers\<close>, \<^verbatim>\<open>query\<close> and \<^verbatim>\<open>cookies\<close>. A header value of a plain object
  is a string, an array of strings, or undefined (absent from the map). The headers of
  an \<^verbatim>\<open>IncomingMessage\<close> are Node's \<^verbatim>\<open>IncomingHttpHeaders\<close>, whose \<^verbatim>\<open>authorization\<close>,
  \<^verbatim>\<open>cookie\<close> and \<^verbatim>\<open>host\<close> are optional strings. A \<^verbatim>\<open>Record<string, _>\<close> is a
  map over its own properties; properties inherited from \<^verbatim>\<open>Object.prototype\<close> are
  outside the model.
\<close>

datatype header_value = HString string | HArray "string list"

record IncomingHttpHeaders =
  authorization :: "string option"
  cookie :: "string option"
  host :: "string option"

record IncomingMessage =
  url :: "string option"
  headers :: IncomingHttpHeaders

record PlainRequest =
  plain_headers :: "(string \<rightharpoonup> header_value) option"
  plain_query :: "(string \<rightharpoonup> string) option"
  plain_cookies :: "(string \<rightharpoonup> string) option"

datatype request = Incoming IncomingMessage | Plain PlainRequest

text \<open>\<^verbatim>\<open>req.headers?.authorization\<close>, for either kind of request.\<close>

definition headers_authorization :: "request \<Rightarrow> header_value option" where
  "headers_authorization req =
     (case req of
        Incoming m \<Rightarrow> map_option HString (authorization (headers m))
      | Plain p \<Rightarrow> (case plain_headers p of
                      None \<Rightarrow> None
                    | Some h \<Rightarrow> h ''authorization''))"

section \<open>Errors\<close>

text \<open>
  Everything the code can throw. The first four are the library's own classes with their
  fixed messages; \<open>HttpError\<close> carries a status and a message; the next three are the
  classes of the verification primitive, each carrying its message (\<open>JwtTokenExpiredError\<close>
  and \<open>JwtNotBeforeError\<close> are subclasses of \<open>JsonWebTokenError\<close>); \<open>OtherError\<close> is any
  other \<^verbatim>\<open>Error\<close> instance, with its constructor's name and its message; \<open>NonError\<close> is
  a thrown value that is not an \<^verbatim>\<open>Error\<close>.
\<close>

datatype js_error =
    TokenExpiredError
  | InvalidTokenError
  | MalformedTokenError
  | NoTokenError
  | HttpError nat string
  | JwtTokenExpiredError string
  | JwtNotBeforeError string
  | JsonWebTokenError string
  | OtherError string string
  | NonError string

fun message_of :: "js_error \<Rightarrow> string" where
  "message_of TokenExpiredError = ''Token has expired''"
| "message_of InvalidTokenError = ''Invalid token signature''"
| "message_of MalformedTokenError = ''Malformed token''"
| "message_of NoTokenError = ''No authorization token was found''"
| "message_of (HttpError st m) = m"
| "message_of (JwtTokenExpiredError m) = m"
| "message_of (JwtNotBeforeError m) = m"
| "message_of (JsonWebTokenError m) = m"
| "message_of (OtherError n m) = m"
| "message_of (NonError v) = []"

fun instanceof_Error :: "js_error \<Rightarrow> bool" where
  "instanceof_Error (NonError v) = False"
| "instanceof_Error e = True"

fun instanceof_jwt_TokenExpiredError :: "js_error \<Rightarrow> bool" where
  "instanceof_jwt_TokenExpiredError (JwtTokenExpiredError m) = True"
| "instanceof_jwt_TokenExpiredError e = False"

fun instanceof_jwt_JsonWebTokenError :: "js_error \<Rightarrow> bool" where
  "instanceof_jwt_JsonWebTokenError (JwtTokenExpiredError m) = True"
| "instanceof_jwt_JsonWebTokenError (JwtNotBeforeError m) = True"
| "instanceof_jwt_JsonWebTokenError (JsonWebTokenError m) = True"
| "instanceof_jwt_JsonWebTokenError e = False"

text \<open>\<^verbatim>\<open>error.constructor.name\<close>.\<close>

fun constructor_name :: "js_error \<Rightarrow> string" where
  "constructor_name TokenExpiredError = ''TokenExpiredError''"
| "constructor_name InvalidTokenError = ''InvalidTokenError''"
| "constructor_name MalformedTokenError = ''MalformedTokenError''"
| "constructor_name NoTokenError = ''NoTokenError''"
| "constructor_name (HttpError st m) = ''HttpError''"
| "constructor_name (JwtTokenExpiredError m) = ''TokenExpiredError''"
| "constructor_name (JwtNotBeforeError m) = ''NotBeforeError''"
| "constructor_name (JsonWebTokenError m) = ''JsonWebTokenError''"
| "constructor_name (OtherError n m) = n"
| "constructor_name (NonError v) = []"

section \<open>Extractors\<close>

text \<open>
  A \<^verbatim>\<open>TokenExtractor\<close> maps a request to \<^verbatim>\<open>string | null\<close>; being JavaScript it may
  also throw, so its result is a sum with the thrown value on the left. \<open>None\<close> is
  \<^verbatim>\<open>null\<close>.
\<close>

type_synonym TokenExtractor = "request \<Rightarrow> js_error + string option"

text \<open>\<^verbatim>\<open>fromAuthHeaderAsBearerToken\<close>.\<close>

definition fromAuthHeaderAsBearerToken :: TokenExtractor where
  "fromAuthHeaderAsBearerToken req =
     (case headers_authorization req of
        Some (HString auth) \<Rightarrow>
          (let parts = split CHR '' '' auth
           in if length parts = 2 \<and> toLowerCase (parts ! 0) = ''bearer''
              then Inr (Some (parts ! 1))
              else Inr None)
      | _ \<Rightarrow> Inr None)"

text \<open>
  \<^verbatim>\<open>new URL(input, base)\<close> belongs to the platform, not to the library: it either
  throws a \<^verbatim>\<open>TypeError\<close> or returns a URL object, of which the library reads only
  \<^verbatim>\<open>searchParams\<close>, the list of name/value pairs of the query. The extractor takes the
  constructor as a parameter.
\<close>

record URL =
  searchParams :: "(string \<times> string) list"

type_synonym URL_constructor = "string \<Rightarrow> string \<Rightarrow> js_error + URL"

text \<open>\<^verbatim>\<open>URLSearchParams.prototype.get\<close>: the value of the first pair with that name, or
  \<^verbatim>\<open>null\<close>.\<close>

definition searchParams_get :: "(string \<times> string) list \<Rightarrow> string \<Rightarrow> string option" where
  "searchParams_get ps name = map_of ps name"

text \<open>\<^verbatim>\<open>x || ''\<close> and \<^verbatim>\<open>x || null\<close> on \<^verbatim>\<open>string | undefined\<close>: the empty string is
  falsy.\<close>

definition or_empty :: "string option \<Rightarrow> string" where
  "or_empty x = (case x of None \<Rightarrow> [] | Some s \<Rightarrow> s)"

definition or_null :: "string option \<Rightarrow> string option" where
  "or_null x = (case x of None \<Rightarrow> None | Some s \<Rightarrow> if s = [] then None else Some s)"

text \<open>A \<^verbatim>\<open>string | undefined\<close> inside a template literal.\<close>

definition template :: "string option \<Rightarrow> string" where
  "template x = (case x of None \<Rightarrow> ''undefined'' | Some s \<Rightarrow> s)"

text \<open>\<^verbatim>\<open>fromQueryParameter(param = 'token')\<close>; \<open>None\<close> is the omitted argument.\<close>

definition fromQueryParameter :: "URL_constructor \<Rightarrow> string option \<Rightarrow> TokenExtractor" where
  "fromQueryParameter new_URL param_arg req =
     (let param = (case param_arg of None \<Rightarrow> ''token'' | Some p \<Rightarrow> p)
      in case req of
           Incoming m \<Rightarrow>
             (case new_URL (or_empty (url m)) (''http://'' @ template (host (headers m))) of
                Inl e \<Rightarrow> Inl e
              | Inr u \<Rightarrow> Inr (searchParams_get (searchParams u) param))
         | Plain p \<Rightarrow>
             Inr (or_null (case plain_query p of None \<Rightarrow> None | Some q \<Rightarrow> q param)))"

text \<open>
  The array destructuring \<^verbatim>\<open>const [key, value] = parts\<close>: the first two elements,
  each undefined when the array is too short.
\<close>

definition destructure2 :: "string list \<Rightarrow> string option \<times> string option" where
  "destructure2 parts =
     (case parts of
        [] \<Rightarrow> (None, None)
      | [k] \<Rightarrow> (Some k, None)
      | k # v # rest \<Rightarrow> (Some k, Some v))"

text \<open>The reducer of \<^verbatim>\<open>fromCookie\<close>: \<^verbatim>\<open>acc[key] = value\<close>. Storing undefined and
  not storing read the same afterwards, so an undefined value is no entry.\<close>

definition cookie_step :: "(string \<rightharpoonup> string) \<Rightarrow> string \<Rightarrow> (string \<rightharpoonup> string)" where
  "cookie_step acc c =
     (case destructure2 (split CHR ''='' (trim c)) of
        (key, value) \<Rightarrow> acc(template key := value))"

definition parse_cookies :: "string \<Rightarrow> (string \<rightharpoonup> string)" where
  "parse_cookies c = foldl cookie_step Map.empty (split CHR '';'' c)"

text \<open>\<^verbatim>\<open>fromCookie(cookieName = 'token')\<close>. The cookie name is looked up among the
  parsed cookies themselves: a name that every object inherits from
  \<^verbatim>\<open>Object.prototype\<close> (such as \<^verbatim>\<open>constructor\<close>) is not a cookie name of the model.\<close>

definition fromCookie :: "string option \<Rightarrow> TokenExtractor" where
  "fromCookie cookieName_arg req =
     (let cookieName = (case cookieName_arg of None \<Rightarrow> ''token'' | Some n \<Rightarrow> n)
      in case req of
           Incoming m \<Rightarrow>
             (let cookies = map_option parse_cookies (cookie (headers m))
              in Inr (or_null (case cookies of None \<Rightarrow> None | Some cs \<Rightarrow> cs cookieName)))
         | Plain p \<Rightarrow>
             Inr (or_null (case plain_cookies p of None \<Rightarrow> None | Some cs \<Rightarrow> cs cookieName)))"

section \<open>The extraction pipeline\<close>

record TokenExtractorOptions =
  extractors :: "TokenExtractor list option"

text \<open>\<^verbatim>\<open>if (token)\<close> on \<^verbatim>\<open>string | null\<close>: only a nonempty string is truthy.\<close>

definition truthy :: "string option \<Rightarrow> bool" where
  "truthy token = (case token of None \<Rightarrow> False | Some s \<Rightarrow> s \<noteq> [])"

text \<open>The \<^verbatim>\<open>for\<close> loop of \<^verbatim>\<open>extractToken\<close>; an extractor that throws ends it.\<close>

fun extractToken_loop :: "request \<Rightarrow> TokenExtractor list \<Rightarrow> js_error + string option" where
  "extractToken_loop req [] = Inr None"
| "extractToken_loop req (extractor # rest) =
     (case extractor req of
        Inl e \<Rightarrow> Inl e
      | Inr token \<Rightarrow> if truthy token then Inr token else extractToken_loop req rest)"

text \<open>\<^verbatim>\<open>extractToken(req, options = {})\<close>; \<open>None\<close> is the omitted argument.\<close>

definition extractToken ::
  "request \<Rightarrow> 'a TokenExtractorOptions_scheme option \<Rightarrow> js_error + string option" where
  "extractToken req options_arg =
     (let exs = (case Option.bind options_arg extractors of
                   None \<Rightarrow> [fromAuthHeaderAsBearerToken]
                 | Some l \<Rightarrow> l)
      in extractToken_loop req exs)"

section \<open>Verification\<close>

datatype algorithm = HS256 | HS384 | HS512 | RS256 | RS384 | RS512 | ES256 | ES384 | ES512

record VerifyOptions =
  secret :: string
  algorithms :: "algorithm list option"

text \<open>
  \<^verbatim>\<open>jwt.verify(token, secret, { algorithms })\<close> is the verification primitive of the
  \<^verbatim>\<open>jsonwebtoken\<close> package: it returns the payload or throws. \<^verbatim>\<open>verifyToken\<close> takes it
  as a parameter.
\<close>

type_synonym 'p jwt_verify = "string \<Rightarrow> string \<Rightarrow> algorithm list \<Rightarrow> js_error + 'p"

definition verifyToken :: "'p jwt_verify \<Rightarrow> string \<Rightarrow> VerifyOptions \<Rightarrow> js_error + 'p" where
  "verifyToken jwt_verify token options =
     (let algs = (case algorithms options of None \<Rightarrow> [HS256] | Some l \<Rightarrow> l)
      in case jwt_verify token (secret options) algs of
           Inr decoded \<Rightarrow> Inr decoded
         | Inl error \<Rightarrow>
             if instanceof_jwt_TokenExpiredError error then Inl TokenExpiredError
             else if instanceof_jwt_JsonWebTokenError error then
               (let msg = toLowerCase (message_of error)
                in if includes_str msg ''signature'' then Inl InvalidTokenError
                   else if includes_str msg ''malformed'' \<or> includes_str msg ''invalid token''
                   then Inl MalformedTokenError
                   else Inl InvalidTokenError)
             else Inl error)"

section \<open>Adapters\<close>

text \<open>
  \<^verbatim>\<open>BaseJwtOptions\<close> extends \<^verbatim>\<open>JwtOptions\<close> and \<^verbatim>\<open>TokenExtractorOptions\<close> with
  \<^verbatim>\<open>credentialsRequired\<close>. Every adapter splits \<^verbatim>\<open>credentialsRequired\<close> off (default
  true) and hands the rest to \<^verbatim>\<open>verifyToken\<close>, which reads \<^verbatim>\<open>secret\<close> and
  \<^verbatim>\<open>algorithms\<close>; the type has no \<^verbatim>\<open>algorithms\<close>, so that one is undefined.
\<close>

record BaseJwtOptions = TokenExtractorOptions +
  jwt_secret :: string
  expiresIn :: "string option"
  algorithm :: "algorithm option"
  credentialsRequired :: "bool option"

definition credentialsRequired_of :: "BaseJwtOptions \<Rightarrow> bool" where
  "credentialsRequired_of options =
     (case credentialsRequired options of None \<Rightarrow> True | Some b \<Rightarrow> b)"

definition tokenOptions_of :: "BaseJwtOptions \<Rightarrow> VerifyOptions" where
  "tokenOptions_of options = \<lparr>secret = jwt_secret options, algorithms = None\<rparr>"

subsection \<open>The raw-request verifier\<close>

datatype TokenErrorCode = MISSING | EXPIRED | INVALID | MALFORMED

fun TokenErrorCode_value :: "TokenErrorCode \<Rightarrow> string" where
  "TokenErrorCode_value MISSING = ''TOKEN_MISSING''"
| "TokenErrorCode_value EXPIRED = ''TOKEN_EXPIRED''"
| "TokenErrorCode_value INVALID = ''TOKEN_INVALID''"
| "TokenErrorCode_value MALFORMED = ''TOKEN_MALFORMED''"

text \<open>
  The \<^verbatim>\<open>error\<close> object of a result. Its fields are declared \<^verbatim>\<open>TokenErrorCode\<close> and
  \<^verbatim>\<open>string\<close>, but \<^verbatim>\<open>verifyRequest\<close> fills them through the casts
  \<^verbatim>\<open>as TokenErrorCode\<close> and \<^verbatim>\<open>as string\<close>, which let \<^verbatim>\<open>undefined\<close> through; \<open>None\<close> is
  \<^verbatim>\<open>undefined\<close>.
\<close>

record TokenError =
  code :: "TokenErrorCode option"
  message :: "string option"

record 'p VerifyRequestResult =
  isAuthenticated :: bool
  payload :: "'p option"
  error :: "TokenError option"

text \<open>
  The \<^verbatim>\<open>in\<close> operator on an object literal: \<^verbatim>\<open>name in obj\<close> holds for the object's own
  keys and for the property names it inherits from \<^verbatim>\<open>Object.prototype\<close>.
\<close>

definition Object_prototype_names :: "string list" where
  "Object_prototype_names =
     [''constructor'', ''__defineGetter__'', ''__defineSetter__'', ''hasOwnProperty'',
      ''__lookupGetter__'', ''__lookupSetter__'', ''isPrototypeOf'', ''propertyIsEnumerable'',
      ''toString'', ''valueOf'', ''__proto__'', ''toLocaleString'']"

definition in_object :: "string \<Rightarrow> string list \<Rightarrow> bool" where
  "in_object name own_keys = (name \<in> set own_keys \<or> name \<in> set Object_prototype_names)"

text \<open>The \<^verbatim>\<open>errorMap\<close> of \<^verbatim>\<open>verifyRequest\<close>, keyed by class name.\<close>

definition errorMap :: "(string \<times> TokenError) list" where
  "errorMap =
     [(constructor_name TokenExpiredError,
         \<lparr>code = Some EXPIRED, message = Some ''Token has expired''\<rparr>),
      (constructor_name InvalidTokenError,
         \<lparr>code = Some INVALID, message = Some ''Invalid token signature''\<rparr>),
      (constructor_name MalformedTokenError,
         \<lparr>code = Some MALFORMED, message = Some ''Malformed token''\<rparr>)]"

text \<open>The \<^verbatim>\<open>try\<close> block of \<^verbatim>\<open>verifyRequest\<close>.\<close>

definition verifyRequest_try ::
  "'p jwt_verify \<Rightarrow> request \<Rightarrow> BaseJwtOptions \<Rightarrow> js_error + 'p VerifyRequestResult" where
  "verifyRequest_try jwt_verify req options =
     (case extractToken req (Some options) of
        Inl e \<Rightarrow> Inl e
      | Inr token \<Rightarrow>
          if \<not> truthy token then
            (if credentialsRequired_of options
             then Inr \<lparr>isAuthenticated = False, payload = None,
                       error = Some \<lparr>code = Some MISSING,
                                      message = Some ''No authorization token was found''\<rparr>\<rparr>
             else Inr \<lparr>isAuthenticated = True, payload = None, error = None\<rparr>)
          else
            (case verifyToken jwt_verify (or_empty token) (tokenOptions_of options) of
               Inl e \<Rightarrow> Inl e
             | Inr p \<Rightarrow> Inr \<lparr>isAuthenticated = True, payload = Some p, error = None\<rparr>))"

text \<open>
  \<^verbatim>\<open>verifyRequest\<close>: the \<^verbatim>\<open>try\<close> block under its \<^verbatim>\<open>catch\<close>. A rejected promise is
  \<open>Inl\<close>. For a class name that \<^verbatim>\<open>errorMap\<close> only inherits,
  \<^verbatim>\<open>errorMap[error.constructor.name]\<close> is a function or \<^verbatim>\<open>Object.prototype\<close>, whose
  \<^verbatim>\<open>code\<close> and \<^verbatim>\<open>message\<close> are undefined.
\<close>

definition verifyRequest ::
  "'p jwt_verify \<Rightarrow> request \<Rightarrow> BaseJwtOptions \<Rightarrow> js_error + 'p VerifyRequestResult" where
  "verifyRequest jwt_verify req options =
     (case verifyRequest_try jwt_verify req options of
        Inr r \<Rightarrow> Inr r
      | Inl err \<Rightarrow>
          if instanceof_Error err \<and> in_object (constructor_name err) (map fst errorMap)
          then Inr \<lparr>isAuthenticated = False, payload = None,
                    error = Some (case map_of errorMap (constructor_name err) of
                                    Some entry \<Rightarrow> entry
                                  | None \<Rightarrow> \<lparr>code = None, message = None\<rparr>)\<rparr>
          else Inl err)"

subsection \<open>The Express middleware\<close>

text \<open>
  What the middleware can do to its surroundings: set the response status and send a JSON
  body (\<^verbatim>\<open>res.status(c).json(b)\<close>), call the continuation (\<^verbatim>\<open>next()\<close> or
  \<^verbatim>\<open>next(error)\<close>) and set \<^verbatim>\<open>req.user\<close>. The state records each; the JSON body is the
  list of its properties.
\<close>

record 'p ExpressState =
  res_status :: "nat option"
  res_json :: "(string \<times> string) list option"
  next_calls :: "js_error option list"
  req_user :: "'p option"

definition res_status_json :: "nat \<Rightarrow> (string \<times> string) list \<Rightarrow> 'p ExpressState \<Rightarrow> 'p ExpressState" where
  "res_status_json c body st = st\<lparr>res_status := Some c, res_json := Some body\<rparr>"

definition call_next :: "js_error option \<Rightarrow> 'p ExpressState \<Rightarrow> 'p ExpressState" where
  "call_next arg st = st\<lparr>next_calls := next_calls st @ [arg]\<rparr>"

text \<open>A property of the JSON body sent, if any.\<close>

definition json_property :: "'p ExpressState \<Rightarrow> string \<Rightarrow> string option" where
  "json_property st key = (case res_json st of None \<Rightarrow> None | Some body \<Rightarrow> map_of body key)"

text \<open>The \<^verbatim>\<open>try\<close> block of the middleware.\<close>

definition expressMiddleware_try ::
  "'p jwt_verify \<Rightarrow> BaseJwtOptions \<Rightarrow> request \<Rightarrow> 'p ExpressState \<Rightarrow> js_error + 'p ExpressState" where
  "expressMiddleware_try jwt_verify options req st =
     (case extractToken req (Some options) of
        Inl e \<Rightarrow> Inl e
      | Inr token \<Rightarrow>
          if \<not> truthy token \<and> credentialsRequired_of options
          then Inr (res_status_json 401 [(''error'', message_of NoTokenError)] st)
          else if \<not> truthy token then Inr (call_next None st)
          else
            (case verifyToken jwt_verify (or_empty token) (tokenOptions_of options) of
               Inl e \<Rightarrow> Inl e
             | Inr p \<Rightarrow> Inr (call_next None (st\<lparr>req_user := Some p\<rparr>))))"

definition expressMiddleware ::
  "'p jwt_verify \<Rightarrow> BaseJwtOptions \<Rightarrow> request \<Rightarrow> 'p ExpressState \<Rightarrow> 'p ExpressState" where
  "expressMiddleware jwt_verify options req st =
     (case expressMiddleware_try jwt_verify options req st of
        Inr st' \<Rightarrow> st'
      | Inl err \<Rightarrow>
          if instanceof_Error err
          then res_status_json 401 [(''error'', message_of err)] st
          else call_next (Some err) st)"

subsection \<open>The Fastify hook\<close>

text \<open>The \<^verbatim>\<open>errorMap\<close> of the hook: class name to code and message.\<close>

definition fastify_errorMap :: "(string \<times> string \<times> string) list" where
  "fastify_errorMap =
     [(constructor_name TokenExpiredError, (''TOKEN_EXPIRED'', ''Token has expired'')),
      (constructor_name InvalidTokenError, (''TOKEN_INVALID'', ''Invalid token signature'')),
      (constructor_name MalformedTokenError, (''TOKEN_MALFORMED'', ''Malformed token''))]"

text \<open>
  The \<^verbatim>\<open>onRequest\<close> hook, on \<^verbatim>\<open>request.raw\<close> and the \<^verbatim>\<open>request.user\<close> slot; it
  returns the slot or throws. For a class name that the hook's \<^verbatim>\<open>errorMap\<close> only
  inherits the message looked up is undefined, and \<^verbatim>\<open>new HttpError(401, undefined)\<close>
  has the empty message.
\<close>

definition onRequest_try ::
  "'p jwt_verify \<Rightarrow> BaseJwtOptions \<Rightarrow> request \<Rightarrow> 'p option \<Rightarrow> js_error + 'p option" where
  "onRequest_try jwt_verify options raw user =
     (case extractToken raw (Some options) of
        Inl e \<Rightarrow> Inl e
      | Inr token \<Rightarrow>
          if \<not> truthy token then
            (if credentialsRequired_of options
             then Inl (HttpError 401 ''No authorization token was found'')
             else Inr user)
          else
            (case verifyToken jwt_verify (or_empty token) (tokenOptions_of options) of
               Inl e \<Rightarrow> Inl e
             | Inr p \<Rightarrow> Inr (Some p)))"

definition onRequest ::
  "'p jwt_verify \<Rightarrow> BaseJwtOptions \<Rightarrow> request \<Rightarrow> 'p option \<Rightarrow> js_error + 'p option" where
  "onRequest jwt_verify options raw user =
     (case onRequest_try jwt_verify options raw user of
        Inr u \<Rightarrow> Inr u
      | Inl err \<Rightarrow>
          if instanceof_Error err \<and> in_object (constructor_name err) (map fst fastify_errorMap)
          then Inl (HttpError 401
                      (case map_of fastify_errorMap (constructor_name err) of
                         Some (c, m) \<Rightarrow> m
                       | None \<Rightarrow> []))
          else Inl err)"

subsection \<open>The NestJS guard\<close>

text \<open>\<^verbatim>\<open>canActivate\<close>, on the request and its \<^verbatim>\<open>user\<close> slot: the answer with the
  slot, or a thrown error.\<close>

definition canActivate_try ::
  "'p jwt_verify \<Rightarrow> BaseJwtOptions \<Rightarrow> request \<Rightarrow> 'p option \<Rightarrow> js_error + bool \<times> 'p option" where
  "canActivate_try jwt_verify options req user =
     (case extractToken req (Some options) of
        Inl e \<Rightarrow> Inl e
      | Inr token \<Rightarrow>
          if \<not> truthy token \<and> credentialsRequired_of options then Inl NoTokenError
          else if \<not> truthy token then Inr (True, user)
          else
            (case verifyToken jwt_verify (or_empty token) (tokenOptions_of options) of
               Inl e \<Rightarrow> Inl e
             | Inr p \<Rightarrow> Inr (True, Some p)))"

definition canActivate ::
  "'p jwt_verify \<Rightarrow> BaseJwtOptions \<Rightarrow> request \<Rightarrow> 'p option \<Rightarrow> js_error + bool \<times> 'p option" where
  "canActivate jwt_verify options req user =
     (case canActivate_try jwt_verify options req user of
        Inr r \<Rightarrow> Inr r
      | Inl err \<Rightarrow>
          if instanceof_Error err then Inl err
          else Inl (OtherError ''Error'' ''Unknown error''))"

section \<open>A URL constructor to evaluate with\<close>

text \<open>
  To run the query extractor on a concrete request, a constructor is needed. This one
  follows the platform on the requests it is used on below: a base \<^verbatim>\<open>http://\<close> followed
  by a host, and a request target made of a path, an optional query after the first
  \<^verbatim>\<open>?\<close> and an optional fragment after the first \<^verbatim>\<open>#\<close>. With an empty authority in the
  base the platform throws \<^verbatim>\<open>TypeError: Invalid URL\<close>; otherwise the query is cut at
  each \<^verbatim>\<open>&\<close> and every nonempty piece at its first \<^verbatim>\<open>=\<close>. Percent-decoding and the
  platform's other reasons to reject are not part of it, and no general statement
  below depends on it.
\<close>

definition authority :: "string \<Rightarrow> string" where
  "authority base = takeWhile (\<lambda>c. c \<notin> set ''/?#'') (drop 7 base)"

definition query_string :: "string \<Rightarrow> string" where
  "query_string input =
     drop 1 (dropWhile (\<lambda>c. c \<noteq> CHR ''?'') (takeWhile (\<lambda>c. c \<noteq> CHR ''#'') input))"

definition query_pair :: "string \<Rightarrow> string \<times> string" where
  "query_pair piece =
     (takeWhile (\<lambda>c. c \<noteq> CHR ''='') piece, drop 1 (dropWhile (\<lambda>c. c \<noteq> CHR ''='') piece))"

definition simple_URL :: URL_constructor where
  "simple_URL input base =
     (if authority base = [] then Inl (OtherError ''TypeError'' ''Invalid URL'')
      else Inr \<lparr>searchParams =
                 map query_pair (filter (\<lambda>piece. piece \<noteq> []) (split CHR ''&'' (query_string input)))\<rparr>)"

section \<open>Requests, options and primitives of the test suite\<close>

text \<open>The requests, options and primitive behaviours that the repository's tests use;
  the theorems below are evaluated on them.\<close>

definition incoming_request ::
  "string option \<Rightarrow> string option \<Rightarrow> string option \<Rightarrow> string option \<Rightarrow> request" where
  "incoming_request u h c a =
     Incoming \<lparr>url = u, headers = \<lparr>authorization = a, cookie = c, host = h\<rparr>\<rparr>"

definition plain_request :: "(string \<rightharpoonup> header_value) \<Rightarrow> request" where
  "plain_request h = Plain \<lparr>plain_headers = Some h, plain_query = None, plain_cookies = None\<rparr>"

definition test_options :: "bool option \<Rightarrow> BaseJwtOptions" where
  "test_options cr =
     \<lparr>extractors = None, jwt_secret = ''test-secret'', expiresIn = None, algorithm = None,
      credentialsRequired = cr\<rparr>"

definition all_extractors :: "TokenExtractor list" where
  "all_extractors =
     [fromQueryParameter simple_URL None, fromCookie None, fromAuthHeaderAsBearerToken]"

text \<open>Primitives: one that accepts every token with a fixed payload, one that throws a
  given value whatever the token.\<close>

definition verify_accepts :: "'p \<Rightarrow> 'p jwt_verify" where
  "verify_accepts p token secr algs = Inr p"

definition verify_throws :: "js_error \<Rightarrow> nat jwt_verify" where
  "verify_throws e token secr algs = Inl e"

definition initial_state :: "nat ExpressState" where
  "initial_state = \<lparr>res_status = None, res_json = None, next_calls = [], req_user = None\<rparr>"

section \<open>Facts about the string methods\<close>

lemma split_not_Nil [simp]: "split sep s \<noteq> []"
  by (induction s) (auto split: list.splits)






lemma extractToken_loop_skip:
  "\<forall>x\<in>set before. \<exists>tok. x req = Inr tok \<and> \<not> truthy tok \<Longrightarrow>
   extractToken_loop req (before @ rest) = extractToken_loop req rest"
  by (induction before) auto

lemma extractToken_Some:
  "extractToken req (Some opts) =
     extractToken_loop req (case extractors opts of None \<Rightarrow> [fromAuthHeaderAsBearerToken] | Some l \<Rightarrow> l)"
  by (simp add: extractToken_def)

text \<open>\<open>includes_str\<close> is what it is meant to be: the argument occurs somewhere in the
  string.\<close>

lemma includes_str_iff: "includes_str s sub \<longleftrightarrow> (\<exists>p q. s = p @ sub @ q)"
proof (induction s)
  case Nil
  then show ?case by auto
next
  case (Cons c cs)
  show ?case
  proof
    assume "includes_str (c # cs) sub"
    then consider "prefix sub (c # cs)" | "includes_str cs sub" by auto
    then show "\<exists>p q. c # cs = p @ sub @ q"
    proof cases
      case 1
      then obtain q where "c # cs = sub @ q" by (auto simp: prefix_def)
      then have "c # cs = [] @ sub @ q" by simp
      then show ?thesis by blast
    next
      case 2
      with Cons.IH obtain p q where "cs = p @ sub @ q" by blast
      then have "c # cs = (c # p) @ sub @ q" by simp
      then show ?thesis by blast
    qed
  next
    assume "\<exists>p q. c # cs = p @ sub @ q"
    then obtain p q where pq: "c # cs = p @ sub @ q" by blast
    show "includes_str (c # cs) sub"
    proof (cases p)
      case Nil
      with pq have "prefix sub (c # cs)" by (simp add: prefix_def)
      then show ?thesis by simp
    next
      case (Cons x p')
      with pq have "cs = p' @ sub @ q" by simp
      with Cons.IH have "includes_str cs sub" by blast
      then show ?thesis by simp
    qed
  qed
qed

text \<open>A message that contains a lower-case word as it stands contains it after
  lower-casing too.\<close>

lemma includes_str_toLowerCase:
  "includes_str s sub \<Longrightarrow> includes_str (toLowerCase s) (toLowerCase sub)"
proof -
  assume "includes_str s sub"
  then obtain p q where "s = p @ sub @ q" by (auto simp: includes_str_iff)
  then have "toLowerCase s = toLowerCase p @ toLowerCase sub @ toLowerCase q"
    by (simp add: toLowerCase_def)
  then show ?thesis unfolding includes_str_iff by blast
qed

section \<open>The extraction pipeline: order and short circuit\<close>

text \<open>The extractors of the test suite on its requests.\<close>

lemma query_extractor_fromQuery: "fromQueryParameter simple_URL None (incoming_request (Some ''/path?token=fromQuery'') (Some ''example.com'')
        (Some ''token=fromCookie'') (Some ''Bearer fromBearer'')) = Inr (Some ''fromQuery'')"
  by (simp add: fromQueryParameter_def incoming_request_def simple_URL_def authority_def query_string_def query_pair_def
   or_empty_def template_def searchParams_get_def)

lemma bearer_extractor_no_headers: "fromAuthHeaderAsBearerToken (plain_request Map.empty) = Inr None"
  by (simp add: fromAuthHeaderAsBearerToken_def plain_request_def headers_authorization_def)
lemma cookie_extractor_no_cookies: "fromCookie None (plain_request Map.empty) = Inr None"
  by (simp add: fromCookie_def plain_request_def or_null_def)
lemma query_extractor_no_query: "fromQueryParameter simple_URL None (plain_request Map.empty) = Inr None"
  by (simp add: fromQueryParameter_def plain_request_def or_null_def)

text \<open>
  Claim C3. For every request and every extractor list, \<open>extractToken\<close> returns the result
  of the first extractor, in list order, that returns a nonempty string: when every
  extractor before \<open>e\<close> returns \<^verbatim>\<open>null\<close> or the empty string and \<open>e\<close> returns the nonempty
  \<open>t\<close>, the result is \<open>t\<close> whatever the extractors after \<open>e\<close> are or would do, so none of
  them is consulted. When every extractor returns \<^verbatim>\<open>null\<close> or the empty string the
  result is \<^verbatim>\<open>null\<close>. When no list is supplied (no options, or options without
  \<^verbatim>\<open>extractors\<close>) the list is the single bearer-header extractor.
\<close>

theorem extractToken_first_match:
  "((\<forall>x\<in>set before. \<exists>tok. x req = Inr tok \<and> \<not> truthy tok) \<and> e req = Inr (Some t) \<and> t \<noteq> []
      \<longrightarrow> extractToken req (Some \<lparr>extractors = Some (before @ e # after)\<rparr>) = Inr (Some t))
   \<and> ((\<forall>x\<in>set es. \<exists>tok. x req = Inr tok \<and> \<not> truthy tok)
      \<longrightarrow> extractToken req (Some \<lparr>extractors = Some es\<rparr>) = Inr None)
   \<and> extractToken req (Some \<lparr>extractors = None\<rparr>)
       = extractToken req (Some \<lparr>extractors = Some [fromAuthHeaderAsBearerToken]\<rparr>)
   \<and> extractToken req (None :: TokenExtractorOptions option)
       = extractToken req (Some \<lparr>extractors = Some [fromAuthHeaderAsBearerToken]\<rparr>)"
proof (intro conjI impI)
  assume h: "(\<forall>x\<in>set before. \<exists>tok. x req = Inr tok \<and> \<not> truthy tok) \<and> e req = Inr (Some t) \<and> t \<noteq> []"
  then have "extractToken_loop req (before @ e # after) = extractToken_loop req (e # after)"
    using extractToken_loop_skip by blast
  also have "\<dots> = Inr (Some t)" using h by (simp add: truthy_def)
  finally show "extractToken req (Some \<lparr>extractors = Some (before @ e # after)\<rparr>) = Inr (Some t)"
    by (simp add: extractToken_Some)
next
  assume "\<forall>x\<in>set es. \<exists>tok. x req = Inr tok \<and> \<not> truthy tok"
  then have "extractToken_loop req (es @ []) = extractToken_loop req []"
    by (rule extractToken_loop_skip)
  then show "extractToken req (Some \<lparr>extractors = Some es\<rparr>) = Inr None"
    by (simp add: extractToken_Some)
qed (simp_all add: extractToken_def)

theorem extractToken_first_match_witness:
  "extractToken
     (incoming_request (Some ''/path?token=fromQuery'') (Some ''example.com'')
        (Some ''token=fromCookie'') (Some ''Bearer fromBearer''))
     (Some \<lparr>extractors = Some all_extractors\<rparr>) = Inr (Some ''fromQuery'')
   \<and> extractToken (plain_request Map.empty) (Some \<lparr>extractors = Some all_extractors\<rparr>) = Inr None"
  using extractToken_first_match [of "[]"
      "incoming_request (Some ''/path?token=fromQuery'') (Some ''example.com'')
        (Some ''token=fromCookie'') (Some ''Bearer fromBearer'')"
      "fromQueryParameter simple_URL None" "''fromQuery''"
      "[fromCookie None, fromAuthHeaderAsBearerToken]" all_extractors]
    extractToken_first_match [of "[]" "plain_request Map.empty" 
      "fromQueryParameter simple_URL None" "''fromQuery''"
      "[fromCookie None, fromAuthHeaderAsBearerToken]" all_extractors]
  by (simp add: all_extractors_def query_extractor_fromQuery bearer_extractor_no_headers
       cookie_extractor_no_cookies query_extractor_no_query truthy_def)

section \<open>The bearer-header extractor\<close>



lemma toLowerCase_Bearer: "toLowerCase ''Bearer'' = ''bearer''"
  by code_simp



section \<open>Classification of verification failures\<close>

text \<open>
  Claim C1. When the verification primitive fails, \<open>verifyToken\<close> rejects by this
  precedence: with \<open>TokenExpiredError\<close> if the primitive reports expiry; else, for an
  error of the primitive's \<open>JsonWebTokenError\<close> family, with \<open>InvalidTokenError\<close> if the
  message (lower-cased, as the code compares it) contains \<^verbatim>\<open>signature\<close>, else with
  \<open>MalformedTokenError\<close> if it contains \<^verbatim>\<open>malformed\<close> or \<^verbatim>\<open>invalid token\<close>, else with
  \<open>InvalidTokenError\<close>; anything the primitive throws outside that family is rethrown
  unchanged.
\<close>

theorem verifyToken_classification:
  "jwt_verify token (secret options)
       (case algorithms options of None \<Rightarrow> [HS256] | Some l \<Rightarrow> l) = Inl e \<Longrightarrow>
   verifyToken jwt_verify token options =
     Inl (if instanceof_jwt_TokenExpiredError e then TokenExpiredError
          else if \<not> instanceof_jwt_JsonWebTokenError e then e
          else if includes_str (toLowerCase (message_of e)) ''signature'' then InvalidTokenError
          else if includes_str (toLowerCase (message_of e)) ''malformed''
                  \<or> includes_str (toLowerCase (message_of e)) ''invalid token''
               then MalformedTokenError
          else InvalidTokenError)"
  by (simp add: verifyToken_def Let_def)

lemma lower_invalid_signature: "toLowerCase ''invalid signature'' = ''invalid signature''"
  by code_simp
lemma lower_invalid_token: "toLowerCase ''invalid token'' = ''invalid token''"
  by code_simp
lemma lower_jwt_not_active: "toLowerCase ''jwt not active'' = ''jwt not active''"
  by code_simp

theorem verifyToken_classification_witness:
  "verifyToken (verify_throws (JwtTokenExpiredError ''jwt expired'')) ''a.b.c''
      \<lparr>secret = ''test-secret'', algorithms = None\<rparr> = Inl TokenExpiredError
   \<and> verifyToken (verify_throws (JsonWebTokenError ''invalid signature'')) ''a.b.c''
      \<lparr>secret = ''test-secret'', algorithms = None\<rparr> = Inl InvalidTokenError
   \<and> verifyToken (verify_throws (JsonWebTokenError ''invalid token'')) ''a.b.c''
      \<lparr>secret = ''test-secret'', algorithms = None\<rparr> = Inl MalformedTokenError
   \<and> verifyToken (verify_throws (JwtNotBeforeError ''jwt not active'')) ''a.b.c''
      \<lparr>secret = ''test-secret'', algorithms = None\<rparr> = Inl InvalidTokenError
   \<and> verifyToken (verify_throws (OtherError ''Error'' ''Unknown error'')) ''a.b.c''
      \<lparr>secret = ''test-secret'', algorithms = None\<rparr> = Inl (OtherError ''Error'' ''Unknown error'')"
  using verifyToken_classification [of "verify_throws (JwtTokenExpiredError ''jwt expired'')"
           "''a.b.c''" "\<lparr>secret = ''test-secret'', algorithms = None\<rparr>" "JwtTokenExpiredError ''jwt expired''"]
        verifyToken_classification [of "verify_throws (JsonWebTokenError ''invalid signature'')"
           "''a.b.c''" "\<lparr>secret = ''test-secret'', algorithms = None\<rparr>" "JsonWebTokenError ''invalid signature''"]
        verifyToken_classification [of "verify_throws (JsonWebTokenError ''invalid token'')"
           "''a.b.c''" "\<lparr>secret = ''test-secret'', algorithms = None\<rparr>" "JsonWebTokenError ''invalid token''"]
        verifyToken_classification [of "verify_throws (JwtNotBeforeError ''jwt not active'')"
           "''a.b.c''" "\<lparr>secret = ''test-secret'', algorithms = None\<rparr>" "JwtNotBeforeError ''jwt not active''"]
        verifyToken_classification [of "verify_throws (OtherError ''Error'' ''Unknown error'')"
           "''a.b.c''" "\<lparr>secret = ''test-secret'', algorithms = None\<rparr>" "OtherError ''Error'' ''Unknown error''"]
  by (simp add: verify_throws_def lower_invalid_signature lower_invalid_token lower_jwt_not_active)

section \<open>The raw-request verifier without a token\<close>

text \<open>A request without headers yields no token under the default extractor.\<close>

lemma extractToken_no_headers:
  "extractToken (plain_request Map.empty) (Some (test_options cr)) = Inr None"
  by (simp add: extractToken_def test_options_def plain_request_def
      fromAuthHeaderAsBearerToken_def headers_authorization_def)

text \<open>
  Claim C10. When extraction finds no token (\<^verbatim>\<open>null\<close> or the empty string) and
  \<^verbatim>\<open>credentialsRequired\<close> is false, \<open>verifyRequest\<close> returns the record with
  \<^verbatim>\<open>isAuthenticated\<close> true and neither payload nor error.
\<close>

theorem verifyRequest_pass_through:
  "extractToken req (Some options) = Inr token \<Longrightarrow> \<not> truthy token \<Longrightarrow>
   credentialsRequired options = Some False \<Longrightarrow>
   verifyRequest jwt_verify req options =
     Inr \<lparr>isAuthenticated = True, payload = None, error = None\<rparr>"
  by (simp add: verifyRequest_def verifyRequest_try_def credentialsRequired_of_def)

theorem verifyRequest_pass_through_witness:
  "verifyRequest (verify_accepts (1::nat)) (plain_request Map.empty) (test_options (Some False)) =
     Inr \<lparr>isAuthenticated = True, payload = None, error = None\<rparr>"
proof -
  have found: "extractToken (plain_request Map.empty) (Some (test_options (Some False))) = Inr None"
    by (rule extractToken_no_headers)
  have falsy: "\<not> truthy None"
    by (simp add: truthy_def)
  have flag: "credentialsRequired (test_options (Some False)) = Some False"
    by (simp add: test_options_def)
  show ?thesis
    using found falsy flag
      verifyRequest_pass_through [of "plain_request Map.empty" "test_options (Some False)" None
        "verify_accepts (1::nat)"]
    by simp
qed

section \<open>What the raw-request verifier returns and what it rethrows\<close>




lemma verifyToken_jwt_family:
  "jwt_verify token (secret options)
       (case algorithms options of None \<Rightarrow> [HS256] | Some l \<Rightarrow> l) = Inl e \<Longrightarrow>
   instanceof_jwt_JsonWebTokenError e \<Longrightarrow>
   verifyToken jwt_verify token options \<in>
     {Inl TokenExpiredError, Inl InvalidTokenError, Inl MalformedTokenError}"
  by (cases e) (simp_all add: verifyToken_def Let_def)

lemma verifyToken_other:
  "jwt_verify token (secret options)
       (case algorithms options of None \<Rightarrow> [HS256] | Some l \<Rightarrow> l) = Inl e \<Longrightarrow>
   \<not> instanceof_jwt_JsonWebTokenError e \<Longrightarrow>
   verifyToken jwt_verify token options = Inl e"
  by (cases e) (simp_all add: verifyToken_def Let_def)


lemma tokenOptions_algs:
  "(case algorithms (tokenOptions_of options) of None \<Rightarrow> [HS256] | Some l \<Rightarrow> l) = [HS256]"
  "secret (tokenOptions_of options) = jwt_secret options"
  by (simp_all add: tokenOptions_of_def)





lemma extractToken_bearer_abc123:
  "extractToken (plain_request [''authorization'' \<mapsto> HString ''Bearer abc123''])
     (Some (test_options cr)) = Inr (Some ''abc123'')"
  by (simp add: extractToken_def test_options_def plain_request_def
      fromAuthHeaderAsBearerToken_def headers_authorization_def toLowerCase_Bearer truthy_def)




section \<open>What the Express middleware does with a failed verification\<close>

lemma expressMiddleware_verification_fails:
  "extractToken req (Some options) = Inr token \<Longrightarrow> truthy token \<Longrightarrow>
   verifyToken jwt_verify (or_empty token) (tokenOptions_of options) = Inl err \<Longrightarrow>
   expressMiddleware jwt_verify options req st =
     (if instanceof_Error err
      then st\<lparr>res_status := Some 401, res_json := Some [(''error'', message_of err)]\<rparr>
      else st\<lparr>next_calls := next_calls st @ [Some err]\<rparr>)"
  by (simp add: expressMiddleware_def expressMiddleware_try_def res_status_json_def call_next_def)

text \<open>What the \<^verbatim>\<open>catch\<close> block of the middleware does with each kind of thrown value: an
  error of the primitive's \<open>JsonWebTokenError\<close> family, another \<^verbatim>\<open>Error\<close>, a value that
  is not an \<^verbatim>\<open>Error\<close>.\<close>

lemma expressMiddleware_catch:
  "(extractToken req (Some options) = Inr token \<and> truthy token
      \<and> jwt_verify (or_empty token) (jwt_secret options) [HS256] = Inl e
      \<and> instanceof_jwt_JsonWebTokenError e \<longrightarrow>
    expressMiddleware jwt_verify options req st \<in>
      {st\<lparr>res_status := Some 401, res_json := Some [(''error'', ''Token has expired'')]\<rparr>,
       st\<lparr>res_status := Some 401, res_json := Some [(''error'', ''Invalid token signature'')]\<rparr>,
       st\<lparr>res_status := Some 401, res_json := Some [(''error'', ''Malformed token'')]\<rparr>})
   \<and> (extractToken req (Some options) = Inr token \<and> truthy token
      \<and> jwt_verify (or_empty token) (jwt_secret options) [HS256] = Inl e
      \<and> \<not> instanceof_jwt_JsonWebTokenError e \<and> instanceof_Error e \<longrightarrow>
    expressMiddleware jwt_verify options req st =
      st\<lparr>res_status := Some 401, res_json := Some [(''error'', message_of e)]\<rparr>)
   \<and> (extractToken req (Some options) = Inr token \<and> truthy token
      \<and> jwt_verify (or_empty token) (jwt_secret options) [HS256] = Inl e
      \<and> \<not> instanceof_Error e \<longrightarrow>
    expressMiddleware jwt_verify options req st = st\<lparr>next_calls := next_calls st @ [Some e]\<rparr>)"
proof (intro conjI impI)
  assume h: "extractToken req (Some options) = Inr token \<and> truthy token
      \<and> jwt_verify (or_empty token) (jwt_secret options) [HS256] = Inl e
      \<and> instanceof_jwt_JsonWebTokenError e"
  then have "verifyToken jwt_verify (or_empty token) (tokenOptions_of options) \<in>
     {Inl TokenExpiredError, Inl InvalidTokenError, Inl MalformedTokenError}"
    by (intro verifyToken_jwt_family [of _ _ _ e]) (simp_all add: tokenOptions_algs)
  then consider
      "verifyToken jwt_verify (or_empty token) (tokenOptions_of options) = Inl TokenExpiredError"
    | "verifyToken jwt_verify (or_empty token) (tokenOptions_of options) = Inl InvalidTokenError"
    | "verifyToken jwt_verify (or_empty token) (tokenOptions_of options) = Inl MalformedTokenError"
    by blast
  then show "expressMiddleware jwt_verify options req st \<in>
      {st\<lparr>res_status := Some 401, res_json := Some [(''error'', ''Token has expired'')]\<rparr>,
       st\<lparr>res_status := Some 401, res_json := Some [(''error'', ''Invalid token signature'')]\<rparr>,
       st\<lparr>res_status := Some 401, res_json := Some [(''error'', ''Malformed token'')]\<rparr>}"
    using h by cases (simp_all add: expressMiddleware_verification_fails)
next
  assume h: "extractToken req (Some options) = Inr token \<and> truthy token
      \<and> jwt_verify (or_empty token) (jwt_secret options) [HS256] = Inl e
      \<and> \<not> instanceof_jwt_JsonWebTokenError e \<and> instanceof_Error e"
  then have "verifyToken jwt_verify (or_empty token) (tokenOptions_of options) = Inl e"
    by (intro verifyToken_other) (simp_all add: tokenOptions_algs)
  with h show "expressMiddleware jwt_verify options req st =
      st\<lparr>res_status := Some 401, res_json := Some [(''error'', message_of e)]\<rparr>"
    by (simp add: expressMiddleware_verification_fails)
next
  assume h: "extractToken req (Some options) = Inr token \<and> truthy token
      \<and> jwt_verify (or_empty token) (jwt_secret options) [HS256] = Inl e
      \<and> \<not> instanceof_Error e"
  then have "\<not> instanceof_jwt_JsonWebTokenError e" by (cases e) simp_all
  with h have "verifyToken jwt_verify (or_empty token) (tokenOptions_of options) = Inl e"
    by (intro verifyToken_other) (simp_all add: tokenOptions_algs)
  with h show "expressMiddleware jwt_verify options req st = st\<lparr>next_calls := next_calls st @ [Some e]\<rparr>"
    by (simp add: expressMiddleware_verification_fails)
qed

lemma expressMiddleware_catch_examples:
  "expressMiddleware (verify_throws (JwtTokenExpiredError ''jwt expired'')) (test_options None)
       (plain_request [''authorization'' \<mapsto> HString ''Bearer abc123'']) initial_state
     \<in> {initial_state\<lparr>res_status := Some 401, res_json := Some [(''error'', ''Token has expired'')]\<rparr>,
         initial_state\<lparr>res_status := Some 401, res_json := Some [(''error'', ''Invalid token signature'')]\<rparr>,
         initial_state\<lparr>res_status := Some 401, res_json := Some [(''error'', ''Malformed token'')]\<rparr>}
   \<and> expressMiddleware (verify_throws (OtherError ''Error'' ''Unknown error'')) (test_options None)
       (plain_request [''authorization'' \<mapsto> HString ''Bearer abc123'']) initial_state
     = initial_state\<lparr>res_status := Some 401, res_json := Some [(''error'', ''Unknown error'')]\<rparr>
   \<and> expressMiddleware (verify_throws (NonError ''thrown string'')) (test_options None)
       (plain_request [''authorization'' \<mapsto> HString ''Bearer abc123'']) initial_state
     = initial_state\<lparr>next_calls := [Some (NonError ''thrown string'')]\<rparr>"
  using extractToken_bearer_abc123 [of None]
    expressMiddleware_catch
      [of "plain_request [''authorization'' \<mapsto> HString ''Bearer abc123'']" "test_options None"
          "Some ''abc123''" "verify_throws (JwtTokenExpiredError ''jwt expired'')"
          "JwtTokenExpiredError ''jwt expired''" initial_state]
    expressMiddleware_catch
      [of "plain_request [''authorization'' \<mapsto> HString ''Bearer abc123'']" "test_options None"
          "Some ''abc123''" "verify_throws (OtherError ''Error'' ''Unknown error'')"
          "OtherError ''Error'' ''Unknown error''" initial_state]
    expressMiddleware_catch
      [of "plain_request [''authorization'' \<mapsto> HString ''Bearer abc123'']" "test_options None"
          "Some ''abc123''" "verify_throws (NonError ''thrown string'')"
          "NonError ''thrown string''" initial_state]
  by (simp add: truthy_def or_empty_def verify_throws_def test_options_def initial_state_def)

text \<open>
  The other three adapters on a request with a bearer token when the primitive throws a
  plain \<^verbatim>\<open>Error('Unknown error')\<close>: the raw-request verifier and the Fastify hook do not
  find the class in their \<^verbatim>\<open>errorMap\<close> and rethrow, the NestJS guard rethrows.
\<close>

lemma sibling_adapters_rethrow:
  "verifyRequest (verify_throws (OtherError ''Error'' ''Unknown error''))
     (plain_request [''authorization'' \<mapsto> HString ''Bearer abc123'']) (test_options None)
     = Inl (OtherError ''Error'' ''Unknown error'')
   \<and> onRequest (verify_throws (OtherError ''Error'' ''Unknown error'')) (test_options None)
       (plain_request [''authorization'' \<mapsto> HString ''Bearer abc123'']) None
     = Inl (OtherError ''Error'' ''Unknown error'')
   \<and> canActivate (verify_throws (OtherError ''Error'' ''Unknown error'')) (test_options None)
       (plain_request [''authorization'' \<mapsto> HString ''Bearer abc123'']) None
     = Inl (OtherError ''Error'' ''Unknown error'')"
  by (simp add: verifyRequest_def verifyRequest_try_def onRequest_def onRequest_try_def
      canActivate_def canActivate_try_def extractToken_bearer_abc123 truthy_def or_empty_def
      verifyToken_def verify_throws_def in_object_def errorMap_def
      fastify_errorMap_def Object_prototype_names_def)

text \<open>
  Claim C6: in the Express middleware only the classified kinds are translated into the
  401 outcome, and any other exception thrown during verification reaches the
  framework's error channel instead of becoming an authentication failure. The
  \<^verbatim>\<open>catch\<close> block ends in \<^verbatim>\<open>next(error)\<close> for that, but before it tests
  \<^verbatim>\<open>error instanceof Error\<close> and nothing else, so every \<^verbatim>\<open>Error\<close> is answered with
  401. When the primitive throws a plain \<^verbatim>\<open>Error('Unknown error')\<close> the middleware
  answers 401 with \<^verbatim>\<open>{ error: 'Unknown error' }\<close> and never calls \<^verbatim>\<open>next\<close>, where the
  other three adapters rethrow.
\<close>

theorem expressMiddleware_unclassified_error:
  "res_status (expressMiddleware (verify_throws (OtherError ''Error'' ''Unknown error''))
       (test_options None)
       (plain_request [''authorization'' \<mapsto> HString ''Bearer abc123'']) initial_state)
     = Some 401
   \<and> json_property (expressMiddleware (verify_throws (OtherError ''Error'' ''Unknown error''))
       (test_options None)
       (plain_request [''authorization'' \<mapsto> HString ''Bearer abc123'']) initial_state) ''error''
     = Some ''Unknown error''
   \<and> next_calls (expressMiddleware (verify_throws (OtherError ''Error'' ''Unknown error''))
       (test_options None)
       (plain_request [''authorization'' \<mapsto> HString ''Bearer abc123'']) initial_state)
     = []"
  by (simp add: expressMiddleware_def expressMiddleware_try_def extractToken_bearer_abc123
      truthy_def or_empty_def verifyToken_def verify_throws_def res_status_json_def
      json_property_def initial_state_def)

section \<open>The adapters without a token\<close>

lemma credentialsRequired_default: "credentialsRequired_of (test_options None)"
  by (simp add: credentialsRequired_of_def test_options_def)

text \<open>
  Claim C4 says that every adapter, finding no token with \<^verbatim>\<open>credentialsRequired\<close> true,
  fails with the message \<^verbatim>\<open>No authorization token was found\<close> and the code
  \<^verbatim>\<open>TOKEN_MISSING\<close>. The Express middleware answers 401 with the body
  \<^verbatim>\<open>{ error: 'No authorization token was found' }\<close>: the message is there, a code is
  not.
\<close>

theorem expressMiddleware_missing_counterexample:
  "expressMiddleware (verify_accepts (1::nat)) (test_options None) (plain_request Map.empty)
       initial_state
     = initial_state\<lparr>res_status := Some 401,
                      res_json := Some [(''error'', ''No authorization token was found'')]\<rparr>
   \<and> json_property (expressMiddleware (verify_accepts (1::nat)) (test_options None)
       (plain_request Map.empty) initial_state) ''code'' = None"
  by (simp add: expressMiddleware_def expressMiddleware_try_def extractToken_no_headers
      truthy_def credentialsRequired_default res_status_json_def
      json_property_def initial_state_def)

text \<open>
  Claim C4, amended. When extraction finds no token and \<^verbatim>\<open>credentialsRequired\<close> is true
  or left out, the adapter fails with the Missing kind and its message
  \<^verbatim>\<open>No authorization token was found\<close>: the raw-request verifier returns it as an error
  with the code \<^verbatim>\<open>TOKEN_MISSING\<close>; the Express middleware answers 401 with the body
  \<^verbatim>\<open>{ error: <message> }\<close>, without a code and without calling the continuation; the
  Fastify hook throws an \<open>HttpError\<close> with status 401 and the message; the NestJS guard
  throws \<open>NoTokenError\<close>. When \<^verbatim>\<open>credentialsRequired\<close> is false the request proceeds with
  no payload attached and no error raised or returned: the verifier returns the record
  without payload and error, Express calls \<^verbatim>\<open>next()\<close> once, the hook returns and the
  guard answers true, each leaving the \<^verbatim>\<open>user\<close> slot as it was.
\<close>

theorem adapters_without_token:
  "(extractToken req (Some options) = Inr token \<and> \<not> truthy token
      \<and> credentialsRequired options \<noteq> Some False \<longrightarrow>
      verifyRequest jwt_verify req options =
        Inr \<lparr>isAuthenticated = False, payload = None,
              error = Some \<lparr>code = Some MISSING, message = Some ''No authorization token was found''\<rparr>\<rparr>
      \<and> TokenErrorCode_value MISSING = ''TOKEN_MISSING''
      \<and> expressMiddleware jwt_verify options req st =
          st\<lparr>res_status := Some 401,
             res_json := Some [(''error'', ''No authorization token was found'')]\<rparr>
      \<and> onRequest jwt_verify options req user =
          Inl (HttpError 401 ''No authorization token was found'')
      \<and> canActivate jwt_verify options req user = Inl NoTokenError
      \<and> message_of NoTokenError = ''No authorization token was found'')
   \<and> (extractToken req (Some options) = Inr token \<and> \<not> truthy token
      \<and> credentialsRequired options = Some False \<longrightarrow>
      verifyRequest jwt_verify req options =
        Inr \<lparr>isAuthenticated = True, payload = None, error = None\<rparr>
      \<and> expressMiddleware jwt_verify options req st = st\<lparr>next_calls := next_calls st @ [None]\<rparr>
      \<and> onRequest jwt_verify options req user = Inr user
      \<and> canActivate jwt_verify options req user = Inr (True, user))"
proof (intro conjI impI)
  assume h: "extractToken req (Some options) = Inr token \<and> \<not> truthy token
      \<and> credentialsRequired options \<noteq> Some False"
  then have cr: "credentialsRequired_of options"
    by (cases "credentialsRequired options") (simp_all add: credentialsRequired_of_def)
  from h cr show "verifyRequest jwt_verify req options =
        Inr \<lparr>isAuthenticated = False, payload = None,
              error = Some \<lparr>code = Some MISSING, message = Some ''No authorization token was found''\<rparr>\<rparr>"
    by (simp add: verifyRequest_def verifyRequest_try_def)
  show "TokenErrorCode_value MISSING = ''TOKEN_MISSING''" by simp
  from h cr show "expressMiddleware jwt_verify options req st =
          st\<lparr>res_status := Some 401,
             res_json := Some [(''error'', ''No authorization token was found'')]\<rparr>"
    by (simp add: expressMiddleware_def expressMiddleware_try_def res_status_json_def)
  from h cr show "onRequest jwt_verify options req user =
          Inl (HttpError 401 ''No authorization token was found'')"
    by (simp add: onRequest_def onRequest_try_def fastify_errorMap_def in_object_def
        Object_prototype_names_def)
  from h cr show "canActivate jwt_verify options req user = Inl NoTokenError"
    by (simp add: canActivate_def canActivate_try_def)
  show "message_of NoTokenError = ''No authorization token was found''" by simp
next
  assume h: "extractToken req (Some options) = Inr token \<and> \<not> truthy token
      \<and> credentialsRequired options = Some False"
  then have cr: "\<not> credentialsRequired_of options"
    by (simp add: credentialsRequired_of_def)
  from h cr show "verifyRequest jwt_verify req options =
        Inr \<lparr>isAuthenticated = True, payload = None, error = None\<rparr>"
    by (simp add: verifyRequest_def verifyRequest_try_def)
  from h cr show "expressMiddleware jwt_verify options req st = st\<lparr>next_calls := next_calls st @ [None]\<rparr>"
    by (simp add: expressMiddleware_def expressMiddleware_try_def call_next_def)
  from h cr show "onRequest jwt_verify options req user = Inr user"
    by (simp add: onRequest_def onRequest_try_def)
  from h cr show "canActivate jwt_verify options req user = Inr (True, user)"
    by (simp add: canActivate_def canActivate_try_def)
qed

theorem adapters_without_token_witness:
  "verifyRequest (verify_accepts (1::nat)) (plain_request Map.empty) (test_options None) =
        Inr \<lparr>isAuthenticated = False, payload = None,
              error = Some \<lparr>code = Some MISSING, message = Some ''No authorization token was found''\<rparr>\<rparr>
   \<and> expressMiddleware (verify_accepts (1::nat)) (test_options None) (plain_request Map.empty)
        initial_state =
          initial_state\<lparr>res_status := Some 401,
             res_json := Some [(''error'', ''No authorization token was found'')]\<rparr>
   \<and> expressMiddleware (verify_accepts (1::nat)) (test_options (Some False))
        (plain_request Map.empty) initial_state = initial_state\<lparr>next_calls := [None]\<rparr>
   \<and> onRequest (verify_accepts (1::nat)) (test_options (Some False)) (plain_request Map.empty) None
        = Inr None
   \<and> canActivate (verify_accepts (1::nat)) (test_options (Some False)) (plain_request Map.empty)
        None = Inr (True, None)"
proof -
  have none: "extractToken (plain_request Map.empty) (Some (test_options None)) = Inr None"
    and none': "extractToken (plain_request Map.empty) (Some (test_options (Some False))) = Inr None"
    by (rule extractToken_no_headers)+
  have falsy: "\<not> truthy None" by (simp add: truthy_def)
  have dflt: "credentialsRequired (test_options None) \<noteq> Some False"
    and off: "credentialsRequired (test_options (Some False)) = Some False"
    by (simp_all add: test_options_def)
  have nxt: "next_calls initial_state = []" by (simp add: initial_state_def)
  show ?thesis
    using none none' falsy dflt off nxt
      adapters_without_token [of "plain_request Map.empty" "test_options None" None
        "verify_accepts (1::nat)" initial_state None]
      adapters_without_token [of "plain_request Map.empty" "test_options (Some False)" None
        "verify_accepts (1::nat)" initial_state None]
    by simp
qed

section \<open>Empty strings\<close>

lemma or_null_not_empty: "or_null x \<noteq> Some []"
  by (simp add: or_null_def split: option.splits)

lemma fromCookie_returns: "\<exists>r. fromCookie cookieName_arg req = Inr r \<and> r \<noteq> Some []"
  by (cases req) (simp_all add: fromCookie_def Let_def or_null_not_empty)

lemma query_extractor_empty_value:
  "fromQueryParameter simple_URL None
     (incoming_request (Some ''/path?token='') (Some ''example.com'') None None) = Inr (Some [])"
  by (simp add: fromQueryParameter_def incoming_request_def simple_URL_def authority_def
      query_string_def query_pair_def or_empty_def template_def searchParams_get_def)

lemma cookie_extractor_empty_value:
  "fromCookie None (incoming_request None None (Some ''token='') None) = Inr None"
  by (simp add: fromCookie_def incoming_request_def parse_cookies_def cookie_step_def
      destructure2_def trim_def isWhiteSpace_def template_def or_null_def)

text \<open>
  Claim C9 says that the cookie and the query extractor turn an empty value into
  \<^verbatim>\<open>null\<close>. On an \<^verbatim>\<open>IncomingMessage\<close> the query extractor returns
  \<^verbatim>\<open>url.searchParams.get(param)\<close> as it is: for the target \<^verbatim>\<open>/path?token=\<close> that is
  the empty string.
\<close>

theorem fromQueryParameter_empty_counterexample:
  "fromQueryParameter simple_URL None
     (incoming_request (Some ''/path?token='') (Some ''example.com'') None None) = Inr (Some [])"
  by (rule query_extractor_empty_value)

text \<open>
  Claim C9, amended. An extractor that returns the empty string is treated as having
  found nothing: \<open>extractToken\<close> skips it and goes on with the next extractor, and returns
  \<^verbatim>\<open>null\<close> if it was the last. The cookie extractor never returns the empty string (an
  empty cookie value, as in \<^verbatim>\<open>cookie: token=\<close>, becomes \<^verbatim>\<open>null\<close>), nor does the query
  extractor on a plain request object; on an \<^verbatim>\<open>IncomingMessage\<close> the query extractor
  returns what \<^verbatim>\<open>searchParams.get\<close> returns, the empty string included.
\<close>

theorem empty_string_is_nothing:
  "(e req = Inr (Some []) \<longrightarrow>
      extractToken req (Some \<lparr>extractors = Some (e # rest)\<rparr>)
        = extractToken req (Some \<lparr>extractors = Some rest\<rparr>)
      \<and> extractToken req (Some \<lparr>extractors = Some [e]\<rparr>) = Inr None)
   \<and> fromCookie cookieName_arg req \<noteq> Inr (Some [])
   \<and> fromQueryParameter new_URL param_arg (Plain p) \<noteq> Inr (Some [])
   \<and> (new_URL (or_empty (url m)) (''http://'' @ template (host (headers m))) = Inr u \<longrightarrow>
        fromQueryParameter new_URL param_arg (Incoming m) =
          Inr (searchParams_get (searchParams u)
                 (case param_arg of None \<Rightarrow> ''token'' | Some n \<Rightarrow> n)))"
proof (intro conjI impI)
  assume "e req = Inr (Some [])"
  then show "extractToken req (Some \<lparr>extractors = Some (e # rest)\<rparr>)
        = extractToken req (Some \<lparr>extractors = Some rest\<rparr>)"
    and "extractToken req (Some \<lparr>extractors = Some [e]\<rparr>) = Inr None"
    by (simp_all add: extractToken_def truthy_def)
next
  show "fromCookie cookieName_arg req \<noteq> Inr (Some [])"
    using fromCookie_returns [of cookieName_arg req] by auto
next
  show "fromQueryParameter new_URL param_arg (Plain p) \<noteq> Inr (Some [])"
    by (simp add: fromQueryParameter_def Let_def or_null_not_empty)
next
  assume "new_URL (or_empty (url m)) (''http://'' @ template (host (headers m))) = Inr u"
  then show "fromQueryParameter new_URL param_arg (Incoming m) =
          Inr (searchParams_get (searchParams u)
                 (case param_arg of None \<Rightarrow> ''token'' | Some n \<Rightarrow> n))"
    by (simp add: fromQueryParameter_def Let_def)
qed

theorem empty_string_is_nothing_witness:
  "extractToken (incoming_request (Some ''/path?token='') (Some ''example.com'') None None)
     (Some \<lparr>extractors = Some [fromQueryParameter simple_URL None]\<rparr>) = Inr None
   \<and> fromCookie None (incoming_request None None (Some ''token='') None) = Inr None"
  using query_extractor_empty_value cookie_extractor_empty_value
    empty_string_is_nothing [where e = "fromQueryParameter simple_URL None"
      and req = "incoming_request (Some ''/path?token='') (Some ''example.com'') None None"
      and rest = "[]"]
  by (simp add: extractToken_def)

section \<open>Totality of the extractors\<close>

text \<open>The query extractor throws exactly when it is given an \<^verbatim>\<open>IncomingMessage\<close> on
  which the platform's URL constructor throws; with the URL or the host header missing
  the constructor is given \<^verbatim>\<open>''\<close> and \<^verbatim>\<open>http://undefined\<close> and the extractor returns
  \<^verbatim>\<open>null\<close>.\<close>

lemma fromQueryParameter_throws_iff:
  "(\<exists>e. fromQueryParameter new_URL param_arg req = Inl e) \<longleftrightarrow>
   (\<exists>m e. req = Incoming m
      \<and> new_URL (or_empty (url m)) (''http://'' @ template (host (headers m))) = Inl e)"
  by (cases req) (auto simp: fromQueryParameter_def Let_def split: sum.splits)

lemma fromQueryParameter_missing_url_host:
  "fromQueryParameter simple_URL None (incoming_request None (Some ''example.com'') None None)
     = Inr None
   \<and> fromQueryParameter simple_URL None (incoming_request None None None None) = Inr None"
  by (simp add: fromQueryParameter_def incoming_request_def simple_URL_def authority_def
      query_string_def or_empty_def template_def searchParams_get_def)

text \<open>
  Claim C2: every extractor, and the pipeline, is total and never throws. The bearer and
  the cookie extractor are (\<open>bearer_extractor_cases\<close>, \<open>fromCookie_returns\<close>). The query
  extractor calls \<^verbatim>\<open>new URL(req.url || '', `http://${req.headers.host}`)\<close> unguarded: a
  request whose \<^verbatim>\<open>Host\<close> header is empty makes the base \<^verbatim>\<open>http://\<close>, the constructor
  throws \<^verbatim>\<open>TypeError: Invalid URL\<close>, and so do the extractor and the pipeline.
\<close>

theorem fromQueryParameter_throws:
  "fromQueryParameter simple_URL None
     (incoming_request (Some ''/path?token=abc'') (Some '''') None None)
     = Inl (OtherError ''TypeError'' ''Invalid URL'')
   \<and> extractToken (incoming_request (Some ''/path?token=abc'') (Some '''') None None)
       (Some \<lparr>extractors = Some all_extractors\<rparr>)
     = Inl (OtherError ''TypeError'' ''Invalid URL'')"
  by (simp add: extractToken_def all_extractors_def fromQueryParameter_def incoming_request_def
      simple_URL_def authority_def or_empty_def template_def)

section \<open>The cookie parser\<close>

text \<open>The cookie headers of the test suite, and a duplicate key: the last one wins.\<close>

lemma fromCookie_test_suite:
  "fromCookie None (incoming_request None None (Some ''session=abc; token=xyz; other=123'') None)
     = Inr (Some ''xyz'')
   \<and> fromCookie None (incoming_request None None (Some ''malformed;cookie'') None) = Inr None
   \<and> fromCookie (Some ''auth_token'')
       (incoming_request None None (Some ''auth_token=xyz;other=123'') None) = Inr (Some ''xyz'')
   \<and> fromCookie None (incoming_request None None None None) = Inr None
   \<and> fromCookie None (incoming_request None None (Some ''token=first; token=last'') None)
     = Inr (Some ''last'')"
  by (simp add: fromCookie_def incoming_request_def parse_cookies_def cookie_step_def
      destructure2_def trim_def isWhiteSpace_def template_def or_null_def)

text \<open>
  Claim C8: each segment is split once at its first \<^verbatim>\<open>=\<close>, so that a value containing
  \<^verbatim>\<open>=\<close> is kept whole, and a segment without \<^verbatim>\<open>=\<close> is skipped. The code splits at
  every \<^verbatim>\<open>=\<close> and keeps the first two pieces: the value of \<^verbatim>\<open>token=abc=def\<close> comes out
  as \<^verbatim>\<open>abc\<close>. A segment without \<^verbatim>\<open>=\<close> is stored with an undefined value, so in
  \<^verbatim>\<open>token=abc; token\<close> it erases the value before it.
\<close>

theorem fromCookie_truncates_value:
  "fromCookie None (incoming_request None None (Some ''token=abc=def'') None) = Inr (Some ''abc'')
   \<and> fromCookie None (incoming_request None None (Some ''token=abc; token'') None) = Inr None"
  by (simp add: fromCookie_def incoming_request_def parse_cookies_def cookie_step_def
      destructure2_def trim_def isWhiteSpace_def template_def or_null_def)

end
